theory Spec2Isabelle
  imports Complex_Main "HOL-Library.AList" "HOL-Library.Sublist"
begin

section \<open>Python values shared by the three modules\<close>

text \<open>
  The exceptions that the modelled functions can raise. A function that can raise returns
  a sum whose left injection carries the exception.

  A Python float is an IEEE 754 binary64 number and is modelled by the real number it
  denotes. Two readings of the epoch clock (\<^verbatim>\<open>time.time()\<close>) less than a minute apart
  are within a factor of two of each other, so their difference is itself a float; the
  subtraction of clock readings and its comparison with 60 are therefore the exact ones.
  Division and multiplication round their exact result to the nearest float, and the
  conversion of an integer to a float rounds too, or raises OverflowError.
\<close>

datatype py_error =
  IndexError | ZeroDivisionError | NameError | ValueError string | CancelledError
  | InvalidStateError | ClientError | OSError | OverflowError

text \<open>
  Rounding to the nearest integer, a tie going to the even one, and rounding of a real
  number to the nearest binary64 number: the significand has 53 bits, so a number of
  binary exponent \<open>e\<close> is rounded to a multiple of \<open>2 ^ (e - 52)\<close>; below \<open>2 ^ - 1022\<close> the
  spacing stays \<open>2 ^ - 1074\<close>.
\<close>

definition round_half_even :: "real \<Rightarrow> int" where
  "round_half_even q =
     (let f = \<lfloor>q\<rfloor>
      in if q - real_of_int f < 1 / 2 then f
         else if 1 / 2 < q - real_of_int f then f + 1
         else if even f then f else f + 1)"

definition round_double :: "real \<Rightarrow> real" where
  "round_double x =
     (if x = 0 then 0
      else
        (let e = max \<lfloor>log 2 \<bar>x\<bar>\<rfloor> (- 1022);
             ulp = 2 powr (real_of_int e - 52)
         in ulp * real_of_int (round_half_even (x / ulp))))"

text \<open>
  The conversion of a Python integer to a float that \<^verbatim>\<open>float / int\<close> and \<^verbatim>\<open>float * int\<close>
  perform on their integer operand: an integer that would round to \<open>2 ^ 1024\<close> or beyond
  raises OverflowError.
\<close>

definition float_of_int :: "int \<Rightarrow> py_error + real" where
  "float_of_int n =
     (if 2 ^ 1024 - 2 ^ 970 \<le> \<bar>real_of_int n\<bar> then Inl OverflowError
      else Inr (round_double (real_of_int n)))"

section \<open>rate\_limiter.py\<close>

text \<open>
  \<^verbatim>\<open>RateLimiter.__init__\<close> stores the two limits and an empty
  \<^verbatim>\<open>defaultdict(list)\<close>. The dictionary is a partial map from requester ids to the list of
  request times; the lock only serialises \<^verbatim>\<open>is_allowed\<close>, whose body has no suspension
  point, so one call is one atomic state transformer.
\<close>

record RateLimiter =
  requests_per_minute :: int
  burst_size :: int
  user_requests :: "int \<rightharpoonup> real list"

definition RateLimiter_init :: "int \<Rightarrow> int \<Rightarrow> RateLimiter" where
  "RateLimiter_init rpm burst =
     \<lparr>requests_per_minute = rpm, burst_size = burst, user_requests = Map.empty\<rparr>"

text \<open>\<^verbatim>\<open>d[k]\<close> on a \<^verbatim>\<open>defaultdict(list)\<close>: a missing key is inserted with the empty list.\<close>

definition dd_getitem :: "(int \<rightharpoonup> real list) \<Rightarrow> int \<Rightarrow> real list \<times> (int \<rightharpoonup> real list)" where
  "dd_getitem d k = (case d k of Some v \<Rightarrow> (v, d) | None \<Rightarrow> ([], d(k \<mapsto> [])))"

text \<open>\<^verbatim>\<open>d.get(k, [])\<close>: a missing key is not inserted.\<close>

definition dd_get :: "(int \<rightharpoonup> real list) \<Rightarrow> int \<Rightarrow> real list" where
  "dd_get d k = (case d k of Some v \<Rightarrow> v | None \<Rightarrow> [])"

text \<open>The comprehension \<^verbatim>\<open>[t for t in user_reqs if current_time - t < 60]\<close>.\<close>

definition recent :: "real \<Rightarrow> real list \<Rightarrow> real list" where
  "recent current_time user_reqs = filter (\<lambda>req_time. current_time - req_time < 60) user_reqs"

text \<open>
  \<^verbatim>\<open>is_allowed\<close>, given the clock reading. The pruned list is stored before any check, and
  \<^verbatim>\<open>append\<close> mutates that stored list. \<^verbatim>\<open>user_reqs[0]\<close> raises on the empty list.
  \<^verbatim>\<open>60.0 / self.requests_per_minute\<close> converts the limit to a float, raises on zero and
  rounds the quotient; \<^verbatim>\<open>required_interval * len(user_reqs)\<close> converts the length and
  rounds the product. The state reached before a raise is the one with the pruned list
  stored.
\<close>

definition is_allowed :: "RateLimiter \<Rightarrow> int \<Rightarrow> real \<Rightarrow> (py_error + bool) \<times> RateLimiter" where
  "is_allowed rl user_id current_time =
     (let (user_reqs0, d0) = dd_getitem (user_requests rl) user_id;
          user_reqs = recent current_time user_reqs0;
          denied = rl\<lparr>user_requests := d0(user_id \<mapsto> user_reqs)\<rparr>;
          admitted = rl\<lparr>user_requests := d0(user_id \<mapsto> user_reqs @ [current_time])\<rparr>
      in if int (length user_reqs) \<ge> requests_per_minute rl then (Inr False, denied)
         else if int (length user_reqs) < burst_size rl then (Inr True, admitted)
         else (case user_reqs of
                 [] \<Rightarrow> (Inl IndexError, denied)
               | first # _ \<Rightarrow>
                   (let time_since_first = current_time - first
                    in case float_of_int (requests_per_minute rl) of
                         Inl e \<Rightarrow> (Inl e, denied)
                       | Inr limit_f \<Rightarrow>
                           if limit_f = 0 then (Inl ZeroDivisionError, denied)
                           else
                             (let required_interval = round_double (60 / limit_f)
                              in case float_of_int (int (length user_reqs)) of
                                   Inl e \<Rightarrow> (Inl e, denied)
                                 | Inr len_f \<Rightarrow>
                                     if time_since_first < round_double (required_interval * len_f)
                                     then (Inr False, denied)
                                     else (Inr True, admitted)))))"

text \<open>Consecutive checks of one requester at the given clock readings, threading the state.\<close>

fun is_allowed_seq :: "RateLimiter \<Rightarrow> int \<Rightarrow> real list \<Rightarrow> (py_error + bool) list \<times> RateLimiter" where
  "is_allowed_seq rl user_id [] = ([], rl)"
| "is_allowed_seq rl user_id (t # ts) =
     (let (r, rl') = is_allowed rl user_id t;
          (rs, rl'') = is_allowed_seq rl' user_id ts
      in (r # rs, rl''))"




text \<open>The stored window of a requester, as a reader of the table sees it.\<close>

definition window :: "RateLimiter \<Rightarrow> int \<Rightarrow> real list" where
  "window rl user_id = dd_get (user_requests rl) user_id"

text \<open>The limiter with the window of one requester replaced.\<close>

definition stored :: "RateLimiter \<Rightarrow> int \<Rightarrow> real list \<Rightarrow> RateLimiter" where
  "stored rl user_id w = rl\<lparr>user_requests := (user_requests rl)(user_id \<mapsto> w)\<rparr>"

section \<open>downloader.py\<close>

text \<open>
  The two fields of \<^verbatim>\<open>config.bot\<close> that the module reads, and the module's global namespace.
  \<^verbatim>\<open>_download_single\<close> and \<^verbatim>\<open>_get_extension\<close> look up the global names \<^verbatim>\<open>config\<close> and
  \<^verbatim>\<open>urlparse\<close> when they run; a name that the module does not bind raises NameError at
  that point. \<^verbatim>\<open>urlparse\<close> is used only for \<^verbatim>\<open>urlparse(url).path\<close>, so a binding is the
  function from a URL to its path.
\<close>

record BotConfig =
  max_file_size :: int
  temp_dir :: string

record module_globals =
  g_config :: "BotConfig option"
  g_urlparse :: "(string \<Rightarrow> string) option"

text \<open>
  The namespace of \<^verbatim>\<open>downloader.py\<close> as the file is written: its import lines bind
  \<^verbatim>\<open>asyncio\<close>, \<^verbatim>\<open>aiofiles\<close>, \<^verbatim>\<open>os\<close>, \<^verbatim>\<open>hashlib\<close>, \<^verbatim>\<open>Optional\<close>, \<^verbatim>\<open>List\<close>, \<^verbatim>\<open>Dict\<close>,
  \<^verbatim>\<open>Path\<close>, \<^verbatim>\<open>aiohttp\<close>, \<^verbatim>\<open>datetime\<close> and \<^verbatim>\<open>mimetypes\<close>; neither \<^verbatim>\<open>config\<close> nor
  \<^verbatim>\<open>urlparse\<close> is among them.
\<close>

definition downloader_globals :: module_globals where
  "downloader_globals = \<lparr>g_config = None, g_urlparse = None\<rparr>"

text \<open>\<^verbatim>\<open>str.lower\<close> on the ASCII letters.\<close>

definition lower_char :: "char \<Rightarrow> char" where
  "lower_char c =
     (if 65 \<le> (of_char c :: nat) \<and> (of_char c :: nat) \<le> 90
      then char_of ((of_char c :: nat) + 32) else c)"

definition lower :: "string \<Rightarrow> string" where
  "lower s = map lower_char s"

definition get_extension :: "module_globals \<Rightarrow> string \<Rightarrow> string \<Rightarrow> py_error + string" where
  "get_extension g url media_type =
     (case g_urlparse g of
        None \<Rightarrow> Inl NameError
      | Some urlparse \<Rightarrow>
          (let path = lower (urlparse url)
           in if suffix ''.mp4'' path then Inr ''.mp4''
              else if suffix ''.mov'' path then Inr ''.mov''
              else if suffix ''.jpg'' path \<or> suffix ''.jpeg'' path then Inr ''.jpg''
              else if suffix ''.png'' path then Inr ''.png''
              else if suffix ''.gif'' path then Inr ''.gif''
              else Inr (if media_type = ''video'' then ''.mp4'' else ''.jpg'')))"

text \<open>
  The file \<^verbatim>\<open>Path(temp_dir) / f"{user_id}_{timestamp}_{url_hash}_{index}{ext}"\<close>, kept as
  the values that the format string joins. Storage maps a path to the bytes of the file
  there.
\<close>

record local_path =
  fp_dir :: string
  fp_user :: int
  fp_timestamp :: int
  fp_hash :: string
  fp_index :: nat
  fp_ext :: string

type_synonym storage = "local_path \<rightharpoonup> string"

text \<open>
  A descriptor is a dictionary with the keys \<^verbatim>\<open>url\<close> and \<^verbatim>\<open>type\<close>. What the network and
  the file system do for one item is an input of the model: the clock reading, whether
  \<^verbatim>\<open>mkdir\<close> and \<^verbatim>\<open>open\<close> succeed, and the response, whose body is the sequence of events
  that \<^verbatim>\<open>iter_chunked\<close> and \<^verbatim>\<open>f.write\<close> produce.
\<close>

record media =
  m_url :: string
  m_type :: string

datatype header = Absent | Numeric int | Malformed

datatype body_event = Chunk string | ChunkWriteFails string | ReadFails

record response =
  resp_status :: int
  content_length :: header
  resp_body :: "body_event list"

datatype fetch = ConnectFails | Responds response

record item_env =
  now_timestamp :: int
  mkdir_ok :: bool
  fetched :: fetch
  open_ok :: bool

definition write_chunk :: "local_path \<Rightarrow> string \<Rightarrow> storage \<Rightarrow> storage" where
  "write_chunk filepath chunk fs =
     fs(filepath \<mapsto> (case fs filepath of Some written \<Rightarrow> written | None \<Rightarrow> []) @ chunk)"

text \<open>
  The loop \<^verbatim>\<open>async for chunk in response.content.iter_chunked(8192)\<close> with its counter
  \<^verbatim>\<open>downloaded\<close>. An empty chunk is skipped. After each write the counter is compared with
  the limit; past it the file is closed and unlinked and ValueError is raised.
\<close>

fun stream :: "int \<Rightarrow> local_path \<Rightarrow> body_event list \<Rightarrow> int \<Rightarrow> storage \<Rightarrow> (py_error + unit) \<times> storage" where
  "stream max_size filepath [] downloaded fs = (Inr (), fs)"
| "stream max_size filepath (Chunk chunk # rest) downloaded fs =
     (if chunk = [] then stream max_size filepath rest downloaded fs
      else if downloaded + int (length chunk) > max_size
        then (Inl (ValueError ''File too large''), (write_chunk filepath chunk fs)(filepath := None))
        else stream max_size filepath rest (downloaded + int (length chunk))
               (write_chunk filepath chunk fs))"
| "stream max_size filepath (ChunkWriteFails chunk # rest) downloaded fs =
     (if chunk = [] then stream max_size filepath rest downloaded fs else (Inl OSError, fs))"
| "stream max_size filepath (ReadFails # rest) downloaded fs = (Inl ClientError, fs)"

text \<open>The body of the \<^verbatim>\<open>try\<close> block of \<^verbatim>\<open>_download_single\<close>; \<open>md5\<close> is \<^verbatim>\<open>hexdigest\<close> of the URL.\<close>

definition download_attempt ::
  "module_globals \<Rightarrow> (string \<Rightarrow> string) \<Rightarrow> item_env \<Rightarrow> string \<Rightarrow> string \<Rightarrow> int \<Rightarrow> nat \<Rightarrow> storage
     \<Rightarrow> (py_error + local_path option) \<times> storage" where
  "download_attempt g md5 env url media_type user_id index fs =
     (let url_hash = take 8 (md5 url);
          timestamp = now_timestamp env
      in case get_extension g url media_type of
           Inl e \<Rightarrow> (Inl e, fs)
         | Inr ext \<Rightarrow>
        (case g_config g of
           None \<Rightarrow> (Inl NameError, fs)
         | Some config \<Rightarrow>
        (let filepath = \<lparr>fp_dir = temp_dir config, fp_user = user_id, fp_timestamp = timestamp,
                          fp_hash = url_hash, fp_index = index, fp_ext = ext\<rparr>
         in if \<not> mkdir_ok env then (Inl OSError, fs)
            else case fetched env of
                   ConnectFails \<Rightarrow> (Inl ClientError, fs)
                 | Responds r \<Rightarrow>
                     if resp_status r \<noteq> 200 then (Inr None, fs)
                     else if content_length r = Malformed
                       then (Inl (ValueError ''invalid literal for int()''), fs)
                     else if \<not> open_ok env then (Inl OSError, fs)
                     else (case stream (max_file_size config) filepath (resp_body r) 0
                                  (fs(filepath \<mapsto> [])) of
                             (Inl e, fs') \<Rightarrow> (Inl e, fs')
                           | (Inr _, fs') \<Rightarrow>
                               (case fs' filepath of
                                  None \<Rightarrow> (Inr None, fs')
                                | Some written \<Rightarrow>
                                    if length written > 0 then (Inr (Some filepath), fs')
                                    else (Inr None, fs'))))))"

text \<open>\<^verbatim>\<open>_download_single\<close>: \<^verbatim>\<open>except Exception\<close> turns every exception into the result None.\<close>

definition download_single ::
  "module_globals \<Rightarrow> (string \<Rightarrow> string) \<Rightarrow> item_env \<Rightarrow> string \<Rightarrow> string \<Rightarrow> int \<Rightarrow> nat \<Rightarrow> storage
     \<Rightarrow> local_path option \<times> storage" where
  "download_single g md5 env url media_type user_id index fs =
     (case download_attempt g md5 env url media_type user_id index fs of
        (Inl e, fs') \<Rightarrow> (None, fs')
      | (Inr result, fs') \<Rightarrow> (result, fs'))"

text \<open>
  The coroutines that \<^verbatim>\<open>gather\<close> runs. Each one reads and writes only the file whose name
  carries its own index, so the order in which the event loop interleaves them does not
  show in the results or the storage; the model runs them in index order. \<^verbatim>\<open>gather\<close>
  returns the results in the order of the descriptors.
\<close>

fun run_items ::
  "module_globals \<Rightarrow> (string \<Rightarrow> string) \<Rightarrow> (nat \<Rightarrow> item_env) \<Rightarrow> int \<Rightarrow> nat \<Rightarrow> media list \<Rightarrow> storage
     \<Rightarrow> local_path option list \<times> storage" where
  "run_items g md5 envs user_id idx [] fs = ([], fs)"
| "run_items g md5 envs user_id idx (m # ms) fs =
     (let (result, fs1) = download_single g md5 (envs idx) (m_url m) (m_type m) user_id idx fs;
          (results, fs2) = run_items g md5 envs user_id (Suc idx) ms fs1
      in (result # results, fs2))"

text \<open>
  What the surroundings decide for a batch: the environment of every item, the time (in
  seconds after the start of the batch) at which the coroutine of item \<open>i\<close> would finish,
  and the storage that the interrupted transfers leave behind if the deadline of
  \<^verbatim>\<open>wait_for\<close> (300 seconds) passes first.
\<close>

record batch_env =
  item_envs :: "nat \<Rightarrow> item_env"
  finish_time :: "nat \<Rightarrow> real"
  storage_at_deadline :: storage

definition deadline_passed :: "batch_env \<Rightarrow> nat \<Rightarrow> bool" where
  "deadline_passed benv n = list_ex (\<lambda>i. 300 < finish_time benv i) [0..<n]"

text \<open>
  \<^verbatim>\<open>download_batch\<close>. \<^verbatim>\<open>asyncio.TimeoutError\<close> is caught and answered with the empty list;
  otherwise the results that are paths of existing files are collected.
\<close>

definition download_batch ::
  "module_globals \<Rightarrow> (string \<Rightarrow> string) \<Rightarrow> batch_env \<Rightarrow> media list \<Rightarrow> int \<Rightarrow> storage
     \<Rightarrow> local_path list \<times> storage" where
  "download_batch g md5 benv media_list user_id fs =
     (if deadline_passed benv (length media_list) then ([], storage_at_deadline benv)
      else
        (let (results, fs') = run_items g md5 (item_envs benv) user_id 0 media_list fs;
             successful =
               concat (map (\<lambda>result. case result of
                                        None \<Rightarrow> []
                                      | Some p \<Rightarrow> if fs' p \<noteq> None then [p] else []) results)
         in (successful, fs')))"

text \<open>The module with both names bound, as the two functions expect to find them.\<close>

definition bound_globals :: "BotConfig \<Rightarrow> (string \<Rightarrow> string) \<Rightarrow> module_globals" where
  "bound_globals config urlparse = \<lparr>g_config = Some config, g_urlparse = Some urlparse\<rparr>"




text \<open>
  A batch of five descriptors for which the server answers the second and the fourth with
  status 404 and the other three with a body of six bytes.
\<close>

definition five_media :: "media list" where
  "five_media =
     [\<lparr>m_url = ''http://cdn.test/a.mp4'', m_type = ''video''\<rparr>,
      \<lparr>m_url = ''http://cdn.test/b.mp4'', m_type = ''video''\<rparr>,
      \<lparr>m_url = ''http://cdn.test/c.jpg'', m_type = ''image''\<rparr>,
      \<lparr>m_url = ''http://cdn.test/d.png'', m_type = ''image''\<rparr>,
      \<lparr>m_url = ''http://cdn.test/e'', m_type = ''video''\<rparr>]"

definition five_envs :: batch_env where
  "five_envs =
     \<lparr>item_envs = (\<lambda>i. \<lparr>now_timestamp = 1700000000, mkdir_ok = True,
                          fetched = Responds
                            (if i = 1 \<or> i = 3
                             then \<lparr>resp_status = 404, content_length = Absent, resp_body = []\<rparr>
                             else \<lparr>resp_status = 200, content_length = Numeric 6,
                                   resp_body = [Chunk ''abc'', Chunk ''def'']\<rparr>),
                          open_ok = True\<rparr>),
      finish_time = (\<lambda>i. 2),
      storage_at_deadline = Map.empty\<rparr>"

definition five_path :: "(string \<Rightarrow> string) \<Rightarrow> string \<Rightarrow> nat \<Rightarrow> string \<Rightarrow> local_path" where
  "five_path md5 url index ext =
     \<lparr>fp_dir = ''./temp_downloads'', fp_user = 7, fp_timestamp = 1700000000,
      fp_hash = take 8 (md5 url), fp_index = index, fp_ext = ext\<rparr>"


section \<open>queue\_manager.py\<close>

datatype JobStatus = PENDING | PROCESSING | COMPLETED | FAILED

text \<open>
  A job id is \<^verbatim>\<open>f"{user_id}_{int(time.time())}_{hash(url) % 10000}"\<close>. It is kept as the three
  integers that the format string joins: their decimal forms contain no underscore, so two
  ids are the same string exactly when the three integers agree. \<^verbatim>\<open>result_path\<close> is
  \<^verbatim>\<open>f"/tmp/{job.job_id}.mp4"\<close> and is kept as the id inside it.
\<close>

type_synonym job_id = "int \<times> int \<times> int"

record DownloadJob =
  job_id :: job_id
  job_user_id :: int
  job_url :: string
  job_media_type :: string
  status :: JobStatus
  created_at :: real
  started_at :: "real option"
  completed_at :: "real option"
  result_path :: "job_id option"
  error_message :: "string option"

text \<open>\<^verbatim>\<open>int(x)\<close> of a float truncates towards zero.\<close>

definition py_int :: "real \<Rightarrow> int" where
  "py_int x = (if 0 \<le> x then \<lfloor>x\<rfloor> else \<lceil>x\<rceil>)"

text \<open>
  An \<^verbatim>\<open>asyncio.Task\<close> made by \<^verbatim>\<open>_process_queue\<close>: the job object that its coroutine
  \<^verbatim>\<open>_process_job(job)\<close> holds, the id bound in the lambda of its done callback, how the
  coroutine has ended (if it has), whether \<^verbatim>\<open>cancel()\<close> has been called on it while it
  ran, and whether the event loop has run its done callback.
\<close>

datatype outcome = Running | Returned | Raised string | Cancelled

record task =
  t_job :: nat
  t_jid :: job_id
  t_outcome :: outcome
  t_cancel_requested :: bool
  t_callback_run :: bool

text \<open>
  Where a \<^verbatim>\<open>_process_queue\<close> coroutine stands: about to test \<^verbatim>\<open>while self._running\<close>,
  suspended in \<^verbatim>\<open>asyncio.sleep(0.1)\<close>, suspended in \<^verbatim>\<open>wait_for(self.queue.get(), 1)\<close>, or
  returned.
\<close>

datatype loop_pc = AtTop | Sleeping | Getting | Exited

text \<open>
  The manager. Job objects live in \<open>heap\<close> and are referred to by their position, because
  \<^verbatim>\<open>self.jobs\<close> and the running coroutines hold references to objects that are mutated in
  place. The dictionaries are association lists in insertion order. \<open>queue\<close> and
  \<open>unfinished_tasks\<close> are the items and the counter of the \<^verbatim>\<open>asyncio.Queue\<close>. \<open>tasks\<close>
  holds every task created so far, a task being referred to by its position; \<open>loops\<close>
  holds one entry for each coroutine that \<^verbatim>\<open>start\<close> has created.
\<close>

record QueueManager =
  max_concurrent :: int
  heap :: "DownloadJob list"
  jobs :: "(job_id \<times> nat) list"
  queue :: "job_id list"
  unfinished_tasks :: int
  active_tasks :: "(job_id \<times> nat) list"
  tasks :: "task list"
  running :: bool
  loops :: "loop_pc list"

definition QueueManager_init :: "int \<Rightarrow> QueueManager" where
  "QueueManager_init mc =
     \<lparr>max_concurrent = mc, heap = [], jobs = [], queue = [], unfinished_tasks = 0,
      active_tasks = [], tasks = [], running = False, loops = []\<rparr>"

definition start :: "QueueManager \<Rightarrow> QueueManager" where
  "start qm = qm\<lparr>running := True, loops := loops qm @ [AtTop]\<rparr>"

text \<open>\<^verbatim>\<open>task.cancel()\<close>: a task that is done is left alone.\<close>

definition cancel :: "task \<Rightarrow> task" where
  "cancel t = (if t_outcome t = Running then t\<lparr>t_cancel_requested := True\<rparr> else t)"

text \<open>
  \<^verbatim>\<open>stop\<close> up to its \<^verbatim>\<open>await\<close>: the flag is cleared and every task in
  \<^verbatim>\<open>self.active_tasks.values()\<close> is cancelled. The first component lists the tasks handed to
  \<^verbatim>\<open>asyncio.gather\<close>; \<^verbatim>\<open>stop\<close> returns once all of them are done.
\<close>

definition stop :: "QueueManager \<Rightarrow> nat list \<times> QueueManager" where
  "stop qm =
     (map snd (active_tasks qm),
      qm\<lparr>running := False,
         tasks := fold (\<lambda>tid ts. ts[tid := cancel (ts ! tid)]) (map snd (active_tasks qm))
                    (tasks qm)\<rparr>)"

definition stop_may_return :: "QueueManager \<Rightarrow> nat list \<Rightarrow> bool" where
  "stop_may_return qm awaited = list_all (\<lambda>tid. t_outcome (tasks qm ! tid) \<noteq> Running) awaited"

text \<open>
  \<^verbatim>\<open>add_job\<close>; \<open>hash\<close> is Python's \<^verbatim>\<open>hash\<close> on strings, and the two clock readings are
  those of the two calls of \<^verbatim>\<open>time.time()\<close>. \<^verbatim>\<open>self.jobs[job_id] = job\<close> replaces the
  reference stored under an id that is already present; \<^verbatim>\<open>queue.put\<close> on the unbounded
  queue does not suspend.
\<close>

definition add_job ::
  "(string \<Rightarrow> int) \<Rightarrow> QueueManager \<Rightarrow> int \<Rightarrow> string \<Rightarrow> string \<Rightarrow> real \<Rightarrow> real
     \<Rightarrow> job_id \<times> QueueManager" where
  "add_job hash qm uid target kind now1 now2 =
     (let jid = (uid, py_int now1, hash target mod 10000);
          job = \<lparr>job_id = jid, job_user_id = uid, job_url = target, job_media_type = kind,
                 status = PENDING, created_at = now2, started_at = None, completed_at = None,
                 result_path = None, error_message = None\<rparr>
      in (jid,
          qm\<lparr>heap := heap qm @ [job],
             jobs := AList.update jid (length (heap qm)) (jobs qm),
             queue := queue qm @ [jid],
             unfinished_tasks := unfinished_tasks qm + 1\<rparr>))"

definition update_job :: "nat \<Rightarrow> (DownloadJob \<Rightarrow> DownloadJob) \<Rightarrow> QueueManager \<Rightarrow> QueueManager" where
  "update_job ref f qm = qm\<lparr>heap := (heap qm)[ref := f (heap qm ! ref)]\<rparr>"

text \<open>
  One pass of the body of \<^verbatim>\<open>while self._running\<close> in \<^verbatim>\<open>_process_queue\<close>, cut at its two
  suspension points. \<open>loop_top\<close> runs from the test of the flag to the next \<^verbatim>\<open>await\<close>;
  \<open>loop_got\<close> runs from the return of \<^verbatim>\<open>queue.get()\<close> with an item back to the top of the
  loop. A timeout of \<^verbatim>\<open>wait_for\<close> and the end of the sleep lead back to the top.
\<close>

definition loop_top :: "QueueManager \<Rightarrow> loop_pc" where
  "loop_top qm =
     (if \<not> running qm then Exited
      else if int (length (active_tasks qm)) \<ge> max_concurrent qm then Sleeping
      else Getting)"

definition loop_got :: "QueueManager \<Rightarrow> job_id \<Rightarrow> real \<Rightarrow> QueueManager" where
  "loop_got qm jid now =
     (case map_of (jobs qm) jid of
        None \<Rightarrow> qm
      | Some ref \<Rightarrow>
          (update_job ref (\<lambda>job. job\<lparr>status := PROCESSING, started_at := Some now\<rparr>) qm)
            \<lparr>tasks := tasks qm @ [\<lparr>t_job = ref, t_jid = jid, t_outcome = Running,
                                   t_cancel_requested = False, t_callback_run = False\<rparr>],
             active_tasks := AList.update jid (length (tasks qm)) (active_tasks qm)\<rparr>)"

text \<open>\<^verbatim>\<open>_process_job\<close> after its \<^verbatim>\<open>await asyncio.sleep(2)\<close>, on the job object it was given.\<close>

definition process_job_finish :: "nat \<Rightarrow> real \<Rightarrow> QueueManager \<Rightarrow> QueueManager" where
  "process_job_finish ref now qm =
     update_job ref (\<lambda>job. job\<lparr>status := COMPLETED, completed_at := Some now,
                                result_path := Some (job_id job)\<rparr>) qm"

text \<open>
  \<^verbatim>\<open>_task_done(job_id, task)\<close>, with the exception that leaves it, if any. The event loop
  logs an exception of a callback and goes on, so the state reached before the exception
  stays. \<^verbatim>\<open>Queue.task_done()\<close> raises ValueError when the counter is not positive;
  \<^verbatim>\<open>task.exception()\<close> raises CancelledError on a cancelled task and InvalidStateError on
  one that is not done, returns None for a task that returned, and the exception (a true
  value) for one that raised.
\<close>

definition task_done :: "QueueManager \<Rightarrow> job_id \<Rightarrow> nat \<Rightarrow> py_error option \<times> QueueManager" where
  "task_done qm jid tid =
     (let qm1 = qm\<lparr>active_tasks := AList.delete jid (active_tasks qm)\<rparr>
      in if unfinished_tasks qm1 \<le> 0
         then (Some (ValueError ''task_done() called too many times''), qm1)
         else
           (let qm2 = qm1\<lparr>unfinished_tasks := unfinished_tasks qm1 - 1\<rparr>
            in case t_outcome (tasks qm2 ! tid) of
                 Running \<Rightarrow> (Some InvalidStateError, qm2)
               | Cancelled \<Rightarrow> (Some CancelledError, qm2)
               | Returned \<Rightarrow> (None, qm2)
               | Raised msg \<Rightarrow>
                   (case map_of (jobs qm2) jid of
                      None \<Rightarrow> (None, qm2)
                    | Some ref \<Rightarrow>
                        (None, update_job ref (\<lambda>job. job\<lparr>status := FAILED,
                                                            error_message := Some msg\<rparr>) qm2))))"

definition get_job_status :: "QueueManager \<Rightarrow> job_id \<Rightarrow> DownloadJob option" where
  "get_job_status qm jid = map_option (\<lambda>ref. heap qm ! ref) (map_of (jobs qm) jid)"

definition get_user_jobs :: "QueueManager \<Rightarrow> int \<Rightarrow> DownloadJob list" where
  "get_user_jobs qm uid =
     filter (\<lambda>job. job_user_id job = uid) (map (\<lambda>(jid, ref). heap qm ! ref) (jobs qm))"

text \<open>
  What can happen to a manager, one event at a time. Between two suspension points a
  coroutine runs alone, so each event is one of the atomic pieces above: a call of a public
  method, a step of a \<^verbatim>\<open>_process_queue\<close> coroutine, the end of a job's coroutine (it
  returns, it raises, or a requested cancellation is delivered), or the event loop running
  a task's done callback. The stub \<^verbatim>\<open>_process_job\<close> of the source only sleeps and cannot
  raise by itself; \<open>TaskRaise\<close> stands for a job body that does. \<open>step\<close> is None when the
  event cannot happen in the state.
\<close>

datatype event =
  Start | Stop | AddJob int string string real real
  | LoopTop nat | LoopWake nat | LoopGet nat real | LoopTimeout nat
  | TaskReturn nat real | TaskRaise nat string | TaskCancelled nat | TaskCallback nat

definition set_task :: "nat \<Rightarrow> (task \<Rightarrow> task) \<Rightarrow> QueueManager \<Rightarrow> QueueManager" where
  "set_task tid f qm = qm\<lparr>tasks := (tasks qm)[tid := f (tasks qm ! tid)]\<rparr>"

definition set_loop :: "nat \<Rightarrow> loop_pc \<Rightarrow> QueueManager \<Rightarrow> QueueManager" where
  "set_loop i pc qm = qm\<lparr>loops := (loops qm)[i := pc]\<rparr>"

definition at_pc :: "QueueManager \<Rightarrow> nat \<Rightarrow> loop_pc \<Rightarrow> bool" where
  "at_pc qm i pc = (i < length (loops qm) \<and> loops qm ! i = pc)"

definition task_is :: "QueueManager \<Rightarrow> nat \<Rightarrow> (task \<Rightarrow> bool) \<Rightarrow> bool" where
  "task_is qm tid P = (tid < length (tasks qm) \<and> P (tasks qm ! tid))"

fun step :: "(string \<Rightarrow> int) \<Rightarrow> event \<Rightarrow> QueueManager \<Rightarrow> QueueManager option" where
  "step hash Start qm = Some (start qm)"
| "step hash Stop qm = Some (snd (stop qm))"
| "step hash (AddJob uid target kind now1 now2) qm =
     Some (snd (add_job hash qm uid target kind now1 now2))"
| "step hash (LoopTop i) qm =
     (if at_pc qm i AtTop then Some (set_loop i (loop_top qm) qm) else None)"
| "step hash (LoopWake i) qm =
     (if at_pc qm i Sleeping then Some (set_loop i AtTop qm) else None)"
| "step hash (LoopGet i now) qm =
     (if at_pc qm i Getting
      then (case queue qm of
              [] \<Rightarrow> None
            | jid # rest \<Rightarrow> Some (set_loop i AtTop (loop_got (qm\<lparr>queue := rest\<rparr>) jid now)))
      else None)"
| "step hash (LoopTimeout i) qm =
     (if at_pc qm i Getting \<and> queue qm = [] then Some (set_loop i AtTop qm) else None)"
| "step hash (TaskReturn tid now) qm =
     (if task_is qm tid (\<lambda>t. t_outcome t = Running \<and> \<not> t_cancel_requested t)
      then Some (set_task tid (\<lambda>t. t\<lparr>t_outcome := Returned\<rparr>)
                   (process_job_finish (t_job (tasks qm ! tid)) now qm))
      else None)"
| "step hash (TaskRaise tid msg) qm =
     (if task_is qm tid (\<lambda>t. t_outcome t = Running \<and> \<not> t_cancel_requested t)
      then Some (set_task tid (\<lambda>t. t\<lparr>t_outcome := Raised msg\<rparr>) qm)
      else None)"
| "step hash (TaskCancelled tid) qm =
     (if task_is qm tid (\<lambda>t. t_outcome t = Running \<and> t_cancel_requested t)
      then Some (set_task tid (\<lambda>t. t\<lparr>t_outcome := Cancelled\<rparr>) qm)
      else None)"
| "step hash (TaskCallback tid) qm =
     (if task_is qm tid (\<lambda>t. t_outcome t \<noteq> Running \<and> \<not> t_callback_run t)
      then Some (set_task tid (\<lambda>t. t\<lparr>t_callback_run := True\<rparr>)
                   (snd (task_done qm (t_jid (tasks qm ! tid)) tid)))
      else None)"

fun run :: "(string \<Rightarrow> int) \<Rightarrow> event list \<Rightarrow> QueueManager \<Rightarrow> QueueManager option" where
  "run hash [] qm = Some qm"
| "run hash (e # es) qm = (case step hash e qm of None \<Rightarrow> None | Some qm' \<Rightarrow> run hash es qm')"

text \<open>The number of jobs of the table whose status is Processing.\<close>

definition processing_count :: "QueueManager \<Rightarrow> nat" where
  "processing_count qm =
     length (filter (\<lambda>(jid, ref). status (heap qm ! ref) = PROCESSING) (jobs qm))"

definition running_tasks :: "QueueManager \<Rightarrow> nat" where
  "running_tasks qm = length (filter (\<lambda>t. t_outcome t = Running) (tasks qm))"

text \<open>
  The relation between the queue's counter and the tasks that holds in every state the
  manager can reach: the counter is the number of queued ids plus the number of tasks whose
  done callback has not run; every queued id and every id bound in a callback is a key of
  the job table; and every reference in the table is to an object of the heap.
\<close>

definition pending_callbacks :: "task list \<Rightarrow> nat" where
  "pending_callbacks ts = length (filter (\<lambda>t. \<not> t_callback_run t) ts)"


text \<open>
  A run with \<^verbatim>\<open>max_concurrent = 2\<close>: requester 1 submits the same URL twice within one
  second, the first execution ends after its two seconds, and two more requesters submit a
  job each before the second execution ends.
\<close>

definition collision_trace :: "event list" where
  "collision_trace =
     [Start, LoopTop 0,
      AddJob 1 ''u'' ''auto'' 100 100, LoopGet 0 100, LoopTop 0,
      AddJob 1 ''u'' ''auto'' (201 / 2) (201 / 2), LoopGet 0 (201 / 2), LoopTop 0,
      TaskReturn 0 102, TaskCallback 0,
      AddJob 2 ''u'' ''auto'' (1021 / 10) (1021 / 10), LoopGet 0 (1021 / 10), LoopTop 0,
      AddJob 3 ''u'' ''auto'' (1022 / 10) (1022 / 10), LoopGet 0 (1022 / 10)]"

section \<open>Properties of the rate limiter\<close>

lemma length_recent_le: "length (recent t xs) \<le> length xs"
  by (simp add: recent_def)







text \<open>The method written over the stored window: both ways of reading the table agree.\<close>

lemma is_allowed_alt:
  "is_allowed rl user_id t =
     (let w = recent t (window rl user_id)
      in if int (length w) \<ge> requests_per_minute rl then (Inr False, stored rl user_id w)
         else if int (length w) < burst_size rl then (Inr True, stored rl user_id (w @ [t]))
         else (case w of
                 [] \<Rightarrow> (Inl IndexError, stored rl user_id w)
               | first # _ \<Rightarrow>
                   (case float_of_int (requests_per_minute rl) of
                      Inl e \<Rightarrow> (Inl e, stored rl user_id w)
                    | Inr limit_f \<Rightarrow>
                        if limit_f = 0 then (Inl ZeroDivisionError, stored rl user_id w)
                        else
                          (case float_of_int (int (length w)) of
                             Inl e \<Rightarrow> (Inl e, stored rl user_id w)
                           | Inr len_f \<Rightarrow>
                               if t - first < round_double (round_double (60 / limit_f) * len_f)
                               then (Inr False, stored rl user_id w)
                               else (Inr True, stored rl user_id (w @ [t]))))))"
  by (auto simp: is_allowed_def dd_getitem_def window_def dd_get_def stored_def Let_def
      split: option.splits list.splits sum.splits)

lemma window_stored [simp]: "window (stored rl u w) u = w"
  by (simp add: window_def stored_def dd_get_def)

lemma limits_stored [simp]:
  "requests_per_minute (stored rl u w) = requests_per_minute rl"
  "burst_size (stored rl u w) = burst_size rl"
  by (simp_all add: stored_def)

lemma window_init [simp]: "window (RateLimiter_init rpm burst) u = []"
  by (simp add: window_def RateLimiter_init_def dd_get_def)

lemma limits_init [simp]:
  "requests_per_minute (RateLimiter_init rpm burst) = rpm"
  "burst_size (RateLimiter_init rpm burst) = burst"
  by (simp_all add: RateLimiter_init_def)

lemma stored_stored [simp]: "stored (stored rl u a) u b = stored rl u b"
  by (simp add: stored_def)

lemma is_allowed_burst:
  assumes "int (length (recent t (window rl u))) < burst_size rl"
    and "int (length (recent t (window rl u))) < requests_per_minute rl"
  shows "is_allowed rl u t = (Inr True, stored rl u (recent t (window rl u) @ [t]))"
  using assms by (simp add: is_allowed_alt Let_def)

lemma seq_all_true:
  "burst_size rl \<le> requests_per_minute rl \<Longrightarrow>
   int (length (window rl u)) + int (length ts) \<le> burst_size rl \<Longrightarrow>
   fst (is_allowed_seq rl u ts) = replicate (length ts) (Inr True)"
proof (induction ts arbitrary: rl)
  case Nil
  show ?case by simp
next
  case (Cons t ts)
  let ?w = "recent t (window rl u)"
  have len: "length ?w \<le> length (window rl u)" by (rule length_recent_le)
  have b: "int (length ?w) < burst_size rl" using Cons.prems(2) len by simp
  have r: "int (length ?w) < requests_per_minute rl" using b Cons.prems(1) by simp
  have step: "is_allowed rl u t = (Inr True, stored rl u (?w @ [t]))"
    by (rule is_allowed_burst [OF b r])
  have "fst (is_allowed_seq (stored rl u (?w @ [t])) u ts) = replicate (length ts) (Inr True)"
    using Cons.prems len by (intro Cons.IH) simp_all
  then show ?case
    by (cases "is_allowed_seq (stored rl u (?w @ [t])) u ts") (simp add: step)
qed





text \<open>
  C5, as the claim states it, fails: with a per-minute ceiling of 3 and a burst size of 5, a
  requester with no history is refused at the fourth of five checks made at the same
  instant, because the ceiling is tested before the burst allowance.
\<close>

theorem burst_counterexample:
  "recent 0 (window (RateLimiter_init 3 5) 1) = [] \<and>
   fst (is_allowed_seq (RateLimiter_init 3 5) 1 [0, 0, 0, 0, 0])
     = [Inr True, Inr True, Inr True, Inr False, Inr False]"
  by (simp add: is_allowed_alt Let_def recent_def)

text \<open>
  C5, amended. When the burst size does not exceed the per-minute ceiling, a requester whose
  window is empty after pruning is admitted at each of the next \<open>burst_size\<close> (or fewer)
  consecutive checks, whatever the clock readings. Removing the timestamps older than 60
  seconds from a stored window changes neither the answer of a check nor the state it
  leaves.
\<close>

theorem burst_after_empty_window:
  assumes "burst_size rl \<le> requests_per_minute rl"
    and "recent t (window rl u) = []"
    and "int (length (t # ts)) \<le> burst_size rl"
  shows "fst (is_allowed_seq rl u (t # ts)) = replicate (length (t # ts)) (Inr True)
       \<and> (\<forall>w t'. is_allowed (stored rl u (filter (\<lambda>r. \<not> 60 < t' - r) w)) u t'
                = is_allowed (stored rl u w) u t')"
proof -
  have b: "int (length (recent t (window rl u))) < burst_size rl" using assms by simp
  have r: "int (length (recent t (window rl u))) < requests_per_minute rl"
    using b assms(1) by simp
  have step: "is_allowed rl u t = (Inr True, stored rl u [t])"
    using is_allowed_burst [OF b r] assms(2) by simp
  have "fst (is_allowed_seq (stored rl u [t]) u ts) = replicate (length ts) (Inr True)"
    using assms by (intro seq_all_true) simp_all
  then have A: "fst (is_allowed_seq rl u (t # ts)) = replicate (length (t # ts)) (Inr True)"
    by (cases "is_allowed_seq (stored rl u [t]) u ts") (simp add: step)
  have B: "is_allowed (stored rl u (filter (\<lambda>r. \<not> 60 < t' - r) w)) u t'
                = is_allowed (stored rl u w) u t'" for w t'
  proof -
    have "recent t' (filter (\<lambda>r. \<not> 60 < t' - r) w) = recent t' w"
      by (induction w) (auto simp: recent_def)
    then show ?thesis by (simp add: is_allowed_alt Let_def split: list.splits sum.splits)
  qed
  show ?thesis using A B by blast
qed

theorem burst_after_empty_window_witness:
  "fst (is_allowed_seq (stored (RateLimiter_init 30 5) 1 [0, 10]) 1 [100, 100, 101, 101, 102])
     = [Inr True, Inr True, Inr True, Inr True, Inr True]"
  using burst_after_empty_window
    [of "stored (RateLimiter_init 30 5) 1 [0, 10]" 100 1 "[100, 101, 101, 102]"]
  by (simp add: recent_def)



section \<open>Properties of the download manager\<close>

text \<open>In the module as written no item gets past the lookup of \<^verbatim>\<open>urlparse\<close>.\<close>

lemma download_single_unbound:
  "download_single downloader_globals md5 env url media_type user_id index fs = (None, fs)"
  by (simp add: download_single_def download_attempt_def get_extension_def downloader_globals_def)

lemma run_items_unbound:
  "run_items downloader_globals md5 envs user_id idx ms fs = (replicate (length ms) None, fs)"
  by (induction ms arbitrary: idx) (simp_all add: download_single_unbound)

lemma download_batch_unbound:
  "fst (download_batch downloader_globals md5 benv ms user_id fs) = []"
  by (simp add: download_batch_def run_items_unbound)





















text \<open>
  C9. When some item of the batch is still unfinished 300 seconds after the start,
  \<^verbatim>\<open>download_batch\<close> returns the empty list (a value, not an exception), whatever the
  items have produced so far.
\<close>

theorem batch_timeout_returns_empty:
  assumes "i < length ms" and "300 < finish_time benv i"
  shows "fst (download_batch g md5 benv ms user_id fs) = []"
proof -
  have "deadline_passed benv (length ms)"
    using assms by (auto simp: deadline_passed_def list_ex_iff)
  then show ?thesis by (simp add: download_batch_def)
qed


theorem batch_timeout_returns_empty_witness:
  "fst (download_batch
          (bound_globals \<lparr>max_file_size = 104857600, temp_dir = ''./temp_downloads''\<rparr> (drop 15))
          (\<lambda>url. ''d41d8cd98f00b204e9800998ecf8427e'')
          (five_envs\<lparr>finish_time := (\<lambda>i. if i = 2 then 301 else 2)\<rparr>) five_media 7 Map.empty)
   = []"
  using batch_timeout_returns_empty
    [of 2 five_media "five_envs\<lparr>finish_time := (\<lambda>i. if i = 2 then 301 else 2)\<rparr>"]
  by (simp add: five_media_def)

text \<open>
  C3. For the batch of five descriptors of which two are answered with status 404 and three
  with a non-empty body, \<^verbatim>\<open>download_batch\<close> of the module as it is written returns the
  empty list: every item raises NameError at \<^verbatim>\<open>urlparse\<close>, which \<^verbatim>\<open>except Exception\<close>
  turns into None. The same batch in the module with both names bound returns the three
  paths of the claim.
\<close>

theorem download_batch_never_succeeds:
  "fst (download_batch downloader_globals md5 five_envs five_media 7 Map.empty) = []
   \<and> fst (download_batch
            (bound_globals \<lparr>max_file_size = 104857600, temp_dir = ''./temp_downloads''\<rparr> (drop 15))
            md5 five_envs five_media 7 Map.empty)
     = [five_path md5 ''http://cdn.test/a.mp4'' 0 ''.mp4'',
        five_path md5 ''http://cdn.test/c.jpg'' 2 ''.jpg'',
        five_path md5 ''http://cdn.test/e'' 4 ''.mp4'']"
proof -
  have A: "fst (download_batch downloader_globals md5 five_envs five_media 7 Map.empty) = []"
    by (rule download_batch_unbound)
  have B: "fst (download_batch
            (bound_globals \<lparr>max_file_size = 104857600, temp_dir = ''./temp_downloads''\<rparr> (drop 15))
            md5 five_envs five_media 7 Map.empty)
     = [five_path md5 ''http://cdn.test/a.mp4'' 0 ''.mp4'',
        five_path md5 ''http://cdn.test/c.jpg'' 2 ''.jpg'',
        five_path md5 ''http://cdn.test/e'' 4 ''.mp4'']"
    by (simp add: download_batch_def deadline_passed_def five_media_def five_envs_def five_path_def
        download_single_def download_attempt_def get_extension_def bound_globals_def
        lower_def lower_char_def suffix_def write_chunk_def Let_def)
  show ?thesis using A B by simp
qed

section \<open>Properties of the queue manager\<close>

lemmas qm_defs = QueueManager_init_def start_def stop_def add_job_def update_job_def loop_top_def
  loop_got_def process_job_finish_def task_done_def set_task_def set_loop_def at_pc_def
  task_is_def cancel_def py_int_def Let_def







lemma pending_append [simp]:
  "pending_callbacks (ts @ [t]) = pending_callbacks ts + (if t_callback_run t then 0 else 1)"
  by (simp add: pending_callbacks_def)

lemma pending_Nil [simp]: "pending_callbacks [] = 0"
  by (simp add: pending_callbacks_def)




















text \<open>
  C1. In the run \<open>collision_trace\<close> the manager allows two concurrent executions, and at
  the end three jobs of the table have status Processing and three executions are running,
  while \<^verbatim>\<open>active_tasks\<close> holds two entries. The two submissions of requester 1 received the
  same id: the second dispatch replaced the first task's entry in \<^verbatim>\<open>active_tasks\<close>, and
  the done callback of the first task removed the entry of the second.
\<close>

theorem processing_exceeds_max_concurrent:
  "\<exists>qm. run hash collision_trace (QueueManager_init 2) = Some qm
     \<and> max_concurrent qm = 2 \<and> processing_count qm = 3 \<and> running_tasks qm = 3
     \<and> length (active_tasks qm) = 2"
  by (simp add: collision_trace_def qm_defs processing_count_def running_tasks_def)

text \<open>
  C2. Two calls of \<^verbatim>\<open>add_job\<close> by the same requester for the same URL within one second
  return the same id; the job table then has one entry, and it describes the second job.
\<close>

theorem add_job_same_id_twice:
  "fst (add_job hash (QueueManager_init 5) 1 ''u'' ''video'' 100 100) =
   fst (add_job hash (snd (add_job hash (QueueManager_init 5) 1 ''u'' ''video'' 100 100))
          1 ''u'' ''image'' (201 / 2) (201 / 2))
   \<and> length (jobs (snd (add_job hash
                 (snd (add_job hash (QueueManager_init 5) 1 ''u'' ''video'' 100 100))
                 1 ''u'' ''image'' (201 / 2) (201 / 2)))) = 1
   \<and> map_option job_media_type
       (get_job_status
          (snd (add_job hash (snd (add_job hash (QueueManager_init 5) 1 ''u'' ''video'' 100 100))
                  1 ''u'' ''image'' (201 / 2) (201 / 2)))
          (1, 100, hash ''u'' mod 10000)) = Some ''image''"
  by (simp add: qm_defs get_job_status_def)

text \<open>
  C8. A manager is started and its loop waits for an item of the empty queue. \<^verbatim>\<open>stop\<close>
  clears the flag, has no task to wait for and returns. A job submitted then is Pending,
  and the waiting loop, which tests the flag only at the top of its body, takes it and
  sets it to Processing: an execution is running after \<^verbatim>\<open>stop\<close> has returned.
\<close>

theorem dispatch_after_stop:
  "(\<exists>qm. run hash [Start, LoopTop 0, Stop] (QueueManager_init 5) = Some qm
        \<and> \<not> running qm \<and> fst (stop qm) = [] \<and> stop_may_return qm (fst (stop qm)))
   \<and> (\<exists>qm. run hash [Start, LoopTop 0, Stop, AddJob 1 ''u'' ''auto'' 100 100]
              (QueueManager_init 5) = Some qm
        \<and> map_option status (get_job_status qm (1, 100, hash ''u'' mod 10000)) = Some PENDING)
   \<and> (\<exists>qm. run hash [Start, LoopTop 0, Stop, AddJob 1 ''u'' ''auto'' 100 100, LoopGet 0 100]
              (QueueManager_init 5) = Some qm
        \<and> \<not> running qm
        \<and> map_option status (get_job_status qm (1, 100, hash ''u'' mod 10000)) = Some PROCESSING
        \<and> running_tasks qm = 1 \<and> length (active_tasks qm) = 1)"
  by (simp add: qm_defs get_job_status_def running_tasks_def stop_may_return_def)


end
